theory Spec2Isabelle
  imports Main "HOL-Library.Word"
begin

section \<open>The pool allocator of customallocator.h\<close>

text \<open>
  \<open>std::size_t\<close> is a 64-bit unsigned integer (LP64): \<open>+\<close>, \<open>-\<close> and \<open>*\<close> wrap
  modulo \<open>2 ^ 64\<close>, \<open>\<le>\<close> and \<open><\<close> compare the unsigned values. A \<open>void*\<close> is a
  64-bit address and \<open>nullptr\<close> is the address 0; \<open>char*\<close> arithmetic is addition of
  addresses.
\<close>

type_synonym size_t = "64 word"
type_synonym addr = "64 word"

abbreviation (input) nullptr :: addr where
  "nullptr \<equiv> 0"

text \<open>
  The exceptions the header throws. \<open>terminate\<close> stands for \<open>std::terminate\<close>, which
  is what an exception leaving a \<open>noexcept\<close> function becomes.
\<close>

datatype error = bad_alloc | bad_array_new_length | invalid_argument | terminate

subsection \<open>The system allocator\<close>

text \<open>
  The system allocator is outside the repository and is a parameter \<open>sys\<close> of every
  operation that can reach it. It is asked in two ways. \<open>nothrow_new\<close> is
  \<open>::operator new(bytes, std::nothrow)\<close>: given the state \<open>h\<close> of the system heap and
  a byte count it returns an address, \<open>nullptr\<close> when it is exhausted, and the next
  state of the system heap. \<open>vector_grow\<close> is asked by every \<open>push_back\<close> on a
  \<open>std::vector\<close>: it answers whether the vector has or gets the room for one more
  element; when it has not, \<open>push_back\<close> throws \<open>std::bad_alloc\<close> and leaves the
  vector as it was. At which sizes a vector has to ask for memory is left to \<open>sys\<close>.
\<close>

record 'h system =
  nothrow_new :: "'h \<Rightarrow> size_t \<Rightarrow> addr \<times> 'h"
  vector_grow :: "'h \<Rightarrow> bool \<times> 'h"

definition push_back :: "'h system \<Rightarrow> 'a \<Rightarrow> 'a list \<Rightarrow> 'h \<Rightarrow> (error + 'a list) \<times> 'h" where
  "push_back sys x xs h =
     (case vector_grow sys h of
        (True, h') \<Rightarrow> (Inr (xs @ [x]), h')
      | (False, h') \<Rightarrow> (Inl bad_alloc, h'))"

subsection \<open>PoolState\<close>

record PoolState =
  blocks :: "addr list"
  block_elems :: "size_t list"
  chunk_elems :: size_t
  element_size :: size_t
  current_block_index :: size_t
  current_offset :: size_t
  free_list :: "addr list"

text \<open>
  An exception leaves the mutations made before it in place, so every operation returns
  the state next to its result, also when the result is an error. In \<open>add_block\<close> the
  two \<open>push_back\<close> calls come after the block has been obtained, and the second one
  comes after the first has changed \<open>blocks\<close>.
\<close>

definition add_block ::
  "'h system \<Rightarrow> size_t \<Rightarrow> PoolState \<Rightarrow> 'h \<Rightarrow> (error + unit) \<times> PoolState \<times> 'h"
where
  "add_block sys elems s h =
     (if elems = 0 then (Inr (), s, h)
      else
        let bytes = elems * element_size s;
            (raw, h1) = nothrow_new sys h bytes
        in if raw = nullptr then (Inl bad_alloc, s, h1)
           else
             (case push_back sys raw (blocks s) h1 of
                (Inl e, h2) \<Rightarrow> (Inl e, s, h2)
              | (Inr bs, h2) \<Rightarrow>
                  (case push_back sys elems (block_elems s) h2 of
                     (Inl e, h3) \<Rightarrow> (Inl e, s\<lparr>blocks := bs\<rparr>, h3)
                   | (Inr es, h3) \<Rightarrow>
                       (Inr (),
                        s\<lparr>blocks := bs,
                          block_elems := es,
                          current_block_index := of_nat (length bs) - 1,
                          current_offset := 0\<rparr>,
                        h3))))"

definition current_block_has :: "PoolState \<Rightarrow> size_t \<Rightarrow> bool" where
  "current_block_has s n =
     (if blocks s = [] then False
      else current_offset s + n \<le> block_elems s ! unat (current_block_index s))"

definition alloc_from_current :: "size_t \<Rightarrow> PoolState \<Rightarrow> (error + addr) \<times> PoolState" where
  "alloc_from_current n s =
     (if \<not> current_block_has s n then (Inl bad_alloc, s)
      else
        let base = blocks s ! unat (current_block_index s);
            ptr = base + current_offset s * element_size s
        in (Inr ptr, s\<lparr>current_offset := current_offset s + n\<rparr>))"

text \<open>The \<open>for\<close> loop of \<open>reserve_elements\<close> that sums up \<open>available\<close>.\<close>

definition available :: "PoolState \<Rightarrow> size_t" where
  "available s =
     fold (\<lambda>i acc. if of_nat i = current_block_index s
                    then acc + (block_elems s ! i - current_offset s)
                    else acc + block_elems s ! i)
          [0..<length (blocks s)] 0"

text \<open>The \<open>while (need > 0)\<close> loop of \<open>reserve_elements\<close>.\<close>

function reserve_loop ::
  "'h system \<Rightarrow> size_t \<Rightarrow> PoolState \<Rightarrow> 'h \<Rightarrow> (error + unit) \<times> PoolState \<times> 'h"
where
  "reserve_loop sys need s h =
     (if need > 0 then
        (case add_block sys (max (chunk_elems s) need) s h of
           (Inl e, s', h') \<Rightarrow> (Inl e, s', h')
         | (Inr u, s', h') \<Rightarrow>
             if need \<le> max (chunk_elems s) need then (Inr (), s', h')
             else reserve_loop sys (need - max (chunk_elems s) need) s' h')
      else (Inr (), s, h))"
  by pat_completeness auto
termination
  by (relation "measure (\<lambda>(sys, need, s, h). unat need)") auto

declare reserve_loop.simps [simp del]

definition reserve_elements ::
  "'h system \<Rightarrow> size_t \<Rightarrow> PoolState \<Rightarrow> 'h \<Rightarrow> (error + unit) \<times> PoolState \<times> 'h"
where
  "reserve_elements sys total_elems s h =
     (if total_elems = 0 then (Inr (), s, h)
      else if available s \<ge> total_elems then (Inr (), s, h)
      else reserve_loop sys (total_elems - available s) s h)"

text \<open>
  \<open>push_free\<close> is \<open>noexcept\<close>: when its \<open>push_back\<close> throws, the program is
  terminated.
\<close>

definition push_free ::
  "'h system \<Rightarrow> addr \<Rightarrow> PoolState \<Rightarrow> 'h \<Rightarrow> (error + unit) \<times> PoolState \<times> 'h"
where
  "push_free sys p s h =
     (case push_back sys p (free_list s) h of
        (Inl e, h') \<Rightarrow> (Inl terminate, s, h')
      | (Inr fl, h') \<Rightarrow> (Inr (), s\<lparr>free_list := fl\<rparr>, h'))"

definition pop_free :: "PoolState \<Rightarrow> addr \<times> PoolState" where
  "pop_free s =
     (if free_list s = [] then (nullptr, s)
      else (last (free_list s), s\<lparr>free_list := butlast (free_list s)\<rparr>))"

text \<open>
  The constructor \<open>PoolState(chunk_elems)\<close>; its second argument here is \<open>sizeof(T)\<close>.
  When it throws, no object exists afterwards.
\<close>

definition PoolState_ctor ::
  "'h system \<Rightarrow> size_t \<Rightarrow> size_t \<Rightarrow> 'h \<Rightarrow> (error + PoolState) \<times> 'h"
where
  "PoolState_ctor sys sz chunk h =
     (if chunk = 0 then (Inl invalid_argument, h)
      else
        case add_block sys chunk
               \<lparr>blocks = [], block_elems = [], chunk_elems = chunk, element_size = sz,
                current_block_index = 0, current_offset = 0, free_list = []\<rparr> h of
          (Inl e, s, h') \<Rightarrow> (Inl e, h')
        | (Inr u, s, h') \<Rightarrow> (Inr s, h'))"

subsection \<open>PoolHandle and the object store\<close>

text \<open>
  \<open>PoolState\<close> and \<open>PoolHandle\<close> objects live behind \<open>std::shared_ptr\<close>. The store
  keeps them in two lists; a pointer to an object is its index and a null pointer is
  \<open>None\<close>. \<open>std::make_shared\<close> appends an object, so the object it returns is distinct
  from every object that exists. The allocations \<open>make_shared\<close> itself makes and the
  destruction of an object with its last reference are not modelled.
\<close>

record 'h world =
  pools :: "PoolState list"
  handles :: "nat option list"
  sysheap :: 'h

definition PoolHandle_ctor ::
  "'h system \<Rightarrow> size_t \<Rightarrow> size_t \<Rightarrow> 'h world \<Rightarrow> (error + nat) \<times> 'h world"
where
  "PoolHandle_ctor sys sz chunk w =
     (case PoolState_ctor sys sz chunk (sysheap w) of
        (Inl e, h') \<Rightarrow> (Inl e, w\<lparr>sysheap := h'\<rparr>)
      | (Inr s, h') \<Rightarrow>
          (Inr (length (handles w)),
           w\<lparr>pools := pools w @ [s],
             handles := handles w @ [Some (length (pools w))],
             sysheap := h'\<rparr>))"

definition PoolHandle_get_state :: "nat \<Rightarrow> 'h world \<Rightarrow> nat option" where
  "PoolHandle_get_state hid w = (if hid < length (handles w) then handles w ! hid else None)"

definition PoolHandle_valid :: "nat \<Rightarrow> 'h world \<Rightarrow> bool" where
  "PoolHandle_valid hid w = (PoolHandle_get_state hid w \<noteq> None)"

definition PoolHandle_reset :: "nat \<Rightarrow> 'h world \<Rightarrow> 'h world" where
  "PoolHandle_reset hid w = w\<lparr>handles := (handles w)[hid := None]\<rparr>"

subsection \<open>CustomAllocator\<close>

text \<open>
  The template arguments are fields of the front-end next to its only data member
  \<open>handle_\<close>, the field \<open>handle\<close> here: \<open>value_type\<close> names the element type \<open>T\<close>
  and \<open>sizeof_T\<close> is its size.
\<close>

record CustomAllocator =
  value_type :: string
  sizeof_T :: size_t
  ChunkElems :: size_t
  Expandable :: bool
  PerElementFree :: bool
  handle :: "nat option"

definition get_state :: "CustomAllocator \<Rightarrow> 'h world \<Rightarrow> nat option" where
  "get_state a w =
     (case handle a of
        None \<Rightarrow> None
      | Some hid \<Rightarrow> if PoolHandle_valid hid w then PoolHandle_get_state hid w else None)"

definition get_handle :: "CustomAllocator \<Rightarrow> nat option" where
  "get_handle a = handle a"

definition max_size :: "CustomAllocator \<Rightarrow> size_t" where
  "max_size a = (- 1) div sizeof_T a"

text \<open>
  \<open>CustomAllocator() noexcept\<close>, for the element type, its size and the other template
  arguments given.
\<close>

definition CustomAllocator_ctor ::
  "'h system \<Rightarrow> string \<Rightarrow> size_t \<Rightarrow> size_t \<Rightarrow> bool \<Rightarrow> bool \<Rightarrow> 'h world
     \<Rightarrow> (error + CustomAllocator) \<times> 'h world"
where
  "CustomAllocator_ctor sys T sz chunk expandable per_element_free w =
     (case PoolHandle_ctor sys sz chunk w of
        (Inl e, w') \<Rightarrow> (Inl terminate, w')
      | (Inr hid, w') \<Rightarrow>
          (Inr \<lparr>value_type = T, sizeof_T = sz, ChunkElems = chunk, Expandable = expandable,
                PerElementFree = per_element_free, handle = Some hid\<rparr>, w'))"

text \<open>
  The converting constructor from \<open>CustomAllocator<U, ...>\<close>, which is chosen when
  \<open>U\<close> is not \<open>T\<close>: the other template arguments are those of \<open>other\<close>, \<open>T\<close> and
  \<open>sz\<close> are the new element type and its size.
\<close>

definition CustomAllocator_convert ::
  "'h system \<Rightarrow> string \<Rightarrow> size_t \<Rightarrow> CustomAllocator \<Rightarrow> 'h world
     \<Rightarrow> (error + CustomAllocator) \<times> 'h world"
where
  "CustomAllocator_convert sys T sz other w =
     (case get_handle other of
        None \<Rightarrow> (Inr (other\<lparr>value_type := T, sizeof_T := sz, handle := None\<rparr>), w)
      | Some other_handle \<Rightarrow>
          (case PoolHandle_ctor sys sz (ChunkElems other) w of
             (Inl e, w') \<Rightarrow> (Inl terminate, w')
           | (Inr hid, w') \<Rightarrow>
               (Inr (other\<lparr>value_type := T, sizeof_T := sz, handle := Some hid\<rparr>), w')))"

text \<open>The defaulted move constructor: the new front-end and the moved-from one.\<close>

definition CustomAllocator_move :: "CustomAllocator \<Rightarrow> CustomAllocator \<times> CustomAllocator" where
  "CustomAllocator_move a = (a, a\<lparr>handle := None\<rparr>)"

text \<open>
  \<open>allocate\<close> after \<open>get_state\<close> has returned the pool \<open>s\<close>: the checks and the three
  ways to a pointer.
\<close>

definition allocate_in ::
  "'h system \<Rightarrow> CustomAllocator \<Rightarrow> size_t \<Rightarrow> PoolState \<Rightarrow> 'h
     \<Rightarrow> (error + addr) \<times> PoolState \<times> 'h"
where
  "allocate_in sys a n s h =
     (if n = 0 then (Inr nullptr, s, h)
      else if n > max_size a then (Inl bad_array_new_length, s, h)
      else if \<not> Expandable a \<and> n > chunk_elems s then (Inl bad_alloc, s, h)
      else
        let (p, s1) = (if PerElementFree a \<and> n = 1 then pop_free s else (nullptr, s))
        in if p \<noteq> nullptr then (Inr p, s1, h)
           else if current_block_has s1 n then
             (case alloc_from_current n s1 of (r, s2) \<Rightarrow> (r, s2, h))
           else if \<not> Expandable a then (Inl bad_alloc, s1, h)
           else
             (case add_block sys (max n (chunk_elems s1)) s1 h of
                (Inl e, s2, h') \<Rightarrow> (Inl e, s2, h')
              | (Inr u, s2, h') \<Rightarrow>
                  (case alloc_from_current n s2 of (r, s3) \<Rightarrow> (r, s3, h'))))"

definition allocate ::
  "'h system \<Rightarrow> CustomAllocator \<Rightarrow> size_t \<Rightarrow> 'h world \<Rightarrow> (error + addr) \<times> 'h world"
where
  "allocate sys a n w =
     (case get_state a w of
        None \<Rightarrow> (Inl bad_alloc, w)
      | Some state \<Rightarrow>
          (case allocate_in sys a n (pools w ! state) (sysheap w) of
             (r, s', h') \<Rightarrow> (r, w\<lparr>pools := (pools w)[state := s'], sysheap := h'\<rparr>)))"

text \<open>
  \<open>deallocate\<close> is \<open>noexcept\<close> and has \<open>push_free\<close> as its only call that can
  fail.
\<close>

definition deallocate ::
  "'h system \<Rightarrow> CustomAllocator \<Rightarrow> addr \<Rightarrow> size_t \<Rightarrow> 'h world \<Rightarrow> (error + unit) \<times> 'h world"
where
  "deallocate sys a p n w =
     (if p = nullptr then (Inr (), w)
      else
        case get_state a w of
          None \<Rightarrow> (Inr (), w)
        | Some state \<Rightarrow>
            if PerElementFree a \<and> n = 1
            then (case push_free sys p (pools w ! state) (sysheap w) of
                    (r, s', h') \<Rightarrow> (r, w\<lparr>pools := (pools w)[state := s'], sysheap := h'\<rparr>))
            else (Inr (), w))"

definition CustomAllocator_reserve_elements ::
  "'h system \<Rightarrow> CustomAllocator \<Rightarrow> size_t \<Rightarrow> 'h world \<Rightarrow> (error + unit) \<times> 'h world"
where
  "CustomAllocator_reserve_elements sys a count w =
     (case get_state a w of
        None \<Rightarrow> (Inr (), w)
      | Some state \<Rightarrow>
          (case reserve_elements sys count (pools w ! state) (sysheap w) of
             (r, s', h') \<Rightarrow> (r, w\<lparr>pools := (pools w)[state := s'], sysheap := h'\<rparr>)))"

text \<open>
  \<open>operator==\<close> compares the two \<open>get_state().get()\<close> pointers, a \<open>PoolState<T>*\<close>
  and a \<open>PoolState<U>*\<close>. The two classes are unrelated unless \<open>U\<close> is \<open>T\<close>, so
  for front-ends of two element types the comparison is ill-formed and the operator does
  not compile: the result is \<open>None\<close> then. \<open>operator!=\<close> is its negation and exists
  where it does.
\<close>

definition allocator_eq :: "CustomAllocator \<Rightarrow> CustomAllocator \<Rightarrow> 'h world \<Rightarrow> bool option" where
  "allocator_eq a other w =
     (if value_type a = value_type other then Some (get_state a w = get_state other w)
      else None)"

subsection \<open>Drivers\<close>

text \<open>\<open>k\<close> calls of \<open>allocate(1)\<close> in a row, with the result of each.\<close>

fun allocate_ones ::
  "'h system \<Rightarrow> CustomAllocator \<Rightarrow> nat \<Rightarrow> 'h world \<Rightarrow> (error + addr) list \<times> 'h world"
where
  "allocate_ones sys a 0 w = ([], w)"
| "allocate_ones sys a (Suc k) w =
     (case allocate sys a 1 w of
        (r, w') \<Rightarrow> (case allocate_ones sys a k w' of (rs, w'') \<Rightarrow> (r # rs, w'')))"

text \<open>
  A system allocator to run the operations on: the system heap is the next free address
  and the number of bytes left; a request for more bytes than are left returns
  \<open>nullptr\<close>. Vectors always find their room.
\<close>

definition bump_new :: "addr \<times> nat \<Rightarrow> size_t \<Rightarrow> addr \<times> (addr \<times> nat)" where
  "bump_new h bytes =
     (if unat bytes \<le> snd h then (fst h, (fst h + bytes, snd h - unat bytes))
      else (nullptr, h))"

definition bump_sys :: "(addr \<times> nat) system" where
  "bump_sys = \<lparr>nothrow_new = bump_new, vector_grow = (\<lambda>h. (True, h))\<rparr>"

text \<open>
  The same with a budget for the vectors: the second component of the system heap is the
  number of \<open>push_back\<close> calls that still find room.
\<close>

definition counted_sys :: "((addr \<times> nat) \<times> nat) system" where
  "counted_sys =
     \<lparr>nothrow_new = (\<lambda>h bytes. (fst (bump_new (fst h) bytes), (snd (bump_new (fst h) bytes), snd h))),
      vector_grow = (\<lambda>h. if snd h = 0 then (False, h) else (True, (fst h, snd h - 1)))\<rparr>"

text \<open>A system allocator that is never exhausted and never returns \<open>nullptr\<close>.\<close>

definition endless_new :: "addr \<Rightarrow> size_t \<Rightarrow> addr \<times> addr" where
  "endless_new h bytes =
     (if h = nullptr then (1, 1 + bytes) else (h, h + bytes))"

definition endless_sys :: "addr system" where
  "endless_sys = \<lparr>nothrow_new = endless_new, vector_grow = (\<lambda>h. (True, h))\<rparr>"

definition empty_world :: "'h \<Rightarrow> 'h world" where
  "empty_world h = \<lparr>pools = [], handles = [], sysheap = h\<rparr>"

subsection \<open>The invariant of a pool that has only served single elements\<close>


subsection \<open>Indices into the two vectors\<close>

text \<open>
  \<open>blocks\<close> and \<open>block_elems\<close> are read with \<open>!\<close>. An index outside a
  \<open>std::vector\<close> is undefined behaviour in the source and an unspecified value here.
  \<open>pool_ok\<close> says that the two vectors are equally long and \<open>current_block_index\<close>
  is inside them; every operation that returns normally keeps it.
\<close>

definition pool_ok :: "PoolState \<Rightarrow> bool" where
  "pool_ok s \<longleftrightarrow>
     length (block_elems s) = length (blocks s)
     \<and> (blocks s \<noteq> [] \<longrightarrow> unat (current_block_index s) < length (blocks s))"

section \<open>Facts about the operations\<close>

lemma max_size_ge_1: "sizeof_T a \<noteq> 0 \<Longrightarrow> \<not> max_size a < 1"
proof -
  assume nz: "sizeof_T a \<noteq> 0"
  have le: "unat (sizeof_T a) \<le> unat (- 1 :: size_t)"
    using word_le_nat_alt[of "sizeof_T a" "- 1"] by simp
  have pos: "0 < unat (sizeof_T a)"
    using nz by (simp add: unat_gt_0)
  have "1 \<le> unat (- 1 :: size_t) div unat (sizeof_T a)"
    using le pos by (simp add: Suc_le_eq div_greater_zero_iff)
  then have "unat (max_size a) \<noteq> 0"
    by (simp add: max_size_def unat_div)
  then show ?thesis
    by (simp add: unat_eq_0)
qed

lemma push_back_grows:
  "fst (vector_grow sys h) \<Longrightarrow>
   push_back sys x xs h = (Inr (xs @ [x]), snd (vector_grow sys h))"
  by (cases "vector_grow sys h") (simp add: push_back_def)

lemma push_back_throws:
  "\<not> fst (vector_grow sys h) \<Longrightarrow>
   push_back sys x xs h = (Inl bad_alloc, snd (vector_grow sys h))"
  by (cases "vector_grow sys h") (simp add: push_back_def)

lemma get_state_handles: "handles w' = handles w \<Longrightarrow> get_state a w' = get_state a w"
  by (cases "handle a") (simp_all add: get_state_def PoolHandle_valid_def PoolHandle_get_state_def)

lemma pop_free_last:
  "p \<noteq> nullptr \<Longrightarrow> pop_free (s\<lparr>free_list := free_list s @ [p]\<rparr>) = (p, s)"
  by (simp add: pop_free_def)

text \<open>
  \<open>add_block\<close> when the system allocator has no block: nothing has been touched.
\<close>

lemma add_block_fails:
  assumes "elems \<noteq> 0" and "fst (nothrow_new sys h (elems * element_size s)) = nullptr"
  shows "add_block sys elems s h =
           (Inl bad_alloc, s, snd (nothrow_new sys h (elems * element_size s)))"
  using assms by (cases "nothrow_new sys h (elems * element_size s)") (simp add: add_block_def)

text \<open>\<open>add_block\<close> when the block and the room in both vectors are found.\<close>

lemma add_block_succeeds:
  assumes "elems \<noteq> 0" and "nothrow_new sys h (elems * element_size s) = (raw, h1)"
    and "raw \<noteq> nullptr" and "vector_grow sys h1 = (True, h2)"
    and "vector_grow sys h2 = (True, h3)"
  shows "add_block sys elems s h =
           (Inr (),
            s\<lparr>blocks := blocks s @ [raw],
              block_elems := block_elems s @ [elems],
              current_block_index := of_nat (length (blocks s)),
              current_offset := 0\<rparr>,
            h3)"
  using assms by (simp add: add_block_def push_back_def)

text \<open>
  \<open>add_block\<close> when the block and the room in \<open>blocks\<close> are found and
  \<open>block_elems\<close> cannot grow: the exception leaves \<open>blocks\<close> one entry longer.
\<close>

lemma add_block_partial:
  assumes "elems \<noteq> 0" and "nothrow_new sys h (elems * element_size s) = (raw, h1)"
    and "raw \<noteq> nullptr" and "vector_grow sys h1 = (True, h2)"
    and "vector_grow sys h2 = (False, h3)"
  shows "add_block sys elems s h = (Inl bad_alloc, s\<lparr>blocks := blocks s @ [raw]\<rparr>, h3)"
  using assms by (simp add: add_block_def push_back_def)


text \<open>
  \<open>max(chunk_elems, need)\<close> is never below \<open>need\<close>, so the \<open>while\<close> loop of
  \<open>reserve_elements\<close> leaves through its \<open>break\<close> in the first round.
\<close>

lemma reserve_loop_once:
  assumes "need \<noteq> 0"
  shows "reserve_loop sys need s h =
           (case add_block sys (max (chunk_elems s) need) s h of
              (Inl e, s', h') \<Rightarrow> (Inl e, s', h')
            | (Inr u, s', h') \<Rightarrow> (Inr (), s', h'))"
  using assms
  by (subst reserve_loop.simps) (simp add: word_neq_0_conv split: prod.splits sum.splits)

lemma max_chunk_nonzero: "need \<noteq> 0 \<Longrightarrow> max c need \<noteq> (0 :: size_t)"
  by (metis max.cobounded2 word_le_0_iff)

text \<open>
  In a pool with one block, what \<open>reserve_elements\<close> counts as available is the
  headroom of that block.
\<close>

lemma available_single_block:
  assumes "length (blocks s) = 1" and "current_block_index s = 0"
  shows "available s = block_elems s ! 0 - current_offset s"
  using assms by (simp add: available_def)

text \<open>Where \<open>current_offset + n\<close> does not wrap, the has-room check is exact.\<close>

lemma current_block_has_no_wrap:
  assumes "blocks s \<noteq> []" and "unat (current_offset s) + unat n < 2 ^ 64"
  shows "current_block_has s n \<longleftrightarrow>
           unat (current_offset s) + unat n
             \<le> unat (block_elems s ! unat (current_block_index s))"
proof -
  have "unat (current_offset s + n) = unat (current_offset s) + unat n"
    using assms(2) unat_add_lem[of "current_offset s" n] by simp
  then show ?thesis
    using assms(1) by (simp add: current_block_has_def word_le_nat_alt)
qed

text \<open>\<open>allocate\<close> does check the request against \<open>max_size\<close>.\<close>

lemma allocate_over_limit:
  assumes "get_state a w = Some st" and "max_size a < n"
  shows "allocate sys a n w = (Inl bad_array_new_length, w)"
proof -
  have "n \<noteq> 0"
    using assms(2) by auto
  then show ?thesis
    using assms by (simp add: allocate_def allocate_in_def)
qed

subsection \<open>Construction and the object store\<close>

lemma PoolState_ctor_succeeds:
  assumes "chunk \<noteq> 0" and "nothrow_new sys h (chunk * sz) = (raw, h1)"
    and "raw \<noteq> nullptr" and "vector_grow sys h1 = (True, h2)"
    and "vector_grow sys h2 = (True, h3)"
  shows "PoolState_ctor sys sz chunk h =
           (Inr \<lparr>blocks = [raw], block_elems = [chunk],
                 chunk_elems = chunk, element_size = sz, current_block_index = 0,
                 current_offset = 0, free_list = []\<rparr>,
            h3)"
proof -
  let ?s0 = "\<lparr>blocks = [], block_elems = [], chunk_elems = chunk, element_size = sz,
               current_block_index = 0, current_offset = 0, free_list = []\<rparr>"
  have n: "nothrow_new sys h (chunk * element_size ?s0) = (raw, h1)"
    using assms(2) by simp
  show ?thesis
    using add_block_succeeds[OF assms(1) n assms(3,4,5)] assms(1)
    by (simp add: PoolState_ctor_def)
qed

lemma PoolHandle_ctor_succeeds:
  assumes "chunk \<noteq> 0" and "nothrow_new sys (sysheap w) (chunk * sz) = (raw, h1)"
    and "raw \<noteq> nullptr" and "vector_grow sys h1 = (True, h2)"
    and "vector_grow sys h2 = (True, h3)"
  shows "PoolHandle_ctor sys sz chunk w =
           (Inr (length (handles w)),
            w\<lparr>pools := pools w @
                 [\<lparr>blocks = [raw], block_elems = [chunk],
                   chunk_elems = chunk, element_size = sz, current_block_index = 0,
                   current_offset = 0, free_list = []\<rparr>],
              handles := handles w @ [Some (length (pools w))],
              sysheap := h3\<rparr>)"
  using PoolState_ctor_succeeds[OF assms] by (simp add: PoolHandle_ctor_def)

lemma get_state_new_handle:
  assumes "handle a = Some (length (handles w))" and "handles w' = handles w @ [Some st]"
  shows "get_state a w' = Some st"
  using assms by (simp add: get_state_def PoolHandle_valid_def PoolHandle_get_state_def)

lemma get_state_old_handle:
  assumes "get_state a w = Some st" and "handles w' = handles w @ hs"
  shows "get_state a w' = Some st"
  using assms
  by (cases "handle a")
     (auto simp: get_state_def PoolHandle_valid_def PoolHandle_get_state_def nth_append
           split: if_splits)

lemma allocate_frame:
  assumes "get_state a w \<noteq> Some i"
  shows "pools (snd (allocate sys a n w)) ! i = pools w ! i"
  using assms
  by (cases "get_state a w") (auto simp: allocate_def split: prod.splits)

lemma deallocate_frame:
  assumes "get_state a w \<noteq> Some i"
  shows "pools (snd (deallocate sys a p n w)) ! i = pools w ! i"
  using assms
  by (cases "get_state a w") (auto simp: deallocate_def split: prod.splits)

text \<open>The three ways to a front-end without a pool.\<close>

lemma moved_from_has_no_state: "get_state (snd (CustomAllocator_move a)) w = None"
  by (simp add: CustomAllocator_move_def get_state_def)

lemma reset_handle_has_no_state:
  "handle a = Some hid \<Longrightarrow> get_state a (PoolHandle_reset hid w) = None"
  by (simp add: get_state_def PoolHandle_valid_def PoolHandle_get_state_def PoolHandle_reset_def)

lemma convert_without_handle:
  "handle other = None \<Longrightarrow>
   CustomAllocator_convert sys T sz other w
     = (Inr (other\<lparr>value_type := T, sizeof_T := sz, handle := None\<rparr>), w)"
  by (simp add: CustomAllocator_convert_def get_handle_def)

text \<open>
  \<open>operator==\<close> between front-ends of one element type says whether they have the same
  pool; between front-ends of two element types it does not exist.
\<close>

lemma allocator_eq_same_type:
  "value_type a = value_type other \<Longrightarrow>
   allocator_eq a other w = Some (get_state a w = get_state other w)"
  by (simp add: allocator_eq_def)

lemma allocator_eq_other_type:
  "value_type a \<noteq> value_type other \<Longrightarrow> allocator_eq a other w = None"
  by (simp add: allocator_eq_def)

lemma endless_sys_never_exhausted:
  "(\<forall>h bytes. fst (nothrow_new endless_sys h bytes) \<noteq> nullptr)
   \<and> (\<forall>h. fst (vector_grow endless_sys h))"
  by (simp add: endless_sys_def endless_new_def)

text \<open>
  The converting constructor, when the source has a valid pool and the system allocator
  serves the first block: the new front-end has a pool object of its own, one block of
  \<open>ChunkElems\<close> elements, and no \<open>allocate\<close> or \<open>deallocate\<close> through one of the
  two front-ends changes the pool of the other.
\<close>

lemma convert_fresh_pool:
  assumes valid: "get_state other w = Some st" and st: "st < length (pools w)"
    and chunk: "ChunkElems other \<noteq> 0"
    and new: "nothrow_new sys (sysheap w) (ChunkElems other * sz) = (raw, h1)"
    and raw: "raw \<noteq> nullptr"
    and g1: "vector_grow sys h1 = (True, h2)" and g2: "vector_grow sys h2 = (True, h3)"
  shows "let fresh = \<lparr>blocks = [raw], block_elems = [ChunkElems other],
                      chunk_elems = ChunkElems other, element_size = sz,
                      current_block_index = 0, current_offset = 0, free_list = []\<rparr>;
             a' = other\<lparr>value_type := T, sizeof_T := sz,
                        handle := Some (length (handles w))\<rparr>;
             w' = w\<lparr>pools := pools w @ [fresh],
                    handles := handles w @ [Some (length (pools w))],
                    sysheap := h3\<rparr>
         in CustomAllocator_convert sys T sz other w = (Inr a', w')
          \<and> get_state a' w' = Some (length (pools w))
          \<and> pools w' ! length (pools w) = fresh
          \<and> get_state other w' = Some st
          \<and> pools w' ! st = pools w ! st
          \<and> st \<noteq> length (pools w)
          \<and> (\<forall>n. pools (snd (allocate sys a' n w')) ! st = pools w ! st)
          \<and> (\<forall>p n. pools (snd (deallocate sys a' p n w')) ! st = pools w ! st)
          \<and> (\<forall>n. pools (snd (allocate sys other n w')) ! length (pools w) = fresh)
          \<and> (\<forall>p n. pools (snd (deallocate sys other p n w')) ! length (pools w) = fresh)"
proof -
  let ?fresh = "\<lparr>blocks = [raw], block_elems = [ChunkElems other],
                  chunk_elems = ChunkElems other, element_size = sz,
                  current_block_index = 0, current_offset = 0, free_list = []\<rparr>"
  let ?a = "other\<lparr>value_type := T, sizeof_T := sz, handle := Some (length (handles w))\<rparr>"
  let ?w = "w\<lparr>pools := pools w @ [?fresh],
               handles := handles w @ [Some (length (pools w))],
               sysheap := h3\<rparr>"
  from valid obtain hid where hid: "handle other = Some hid"
    by (cases "handle other") (simp_all add: get_state_def)
  have conv: "CustomAllocator_convert sys T sz other w = (Inr ?a, ?w)"
    using hid PoolHandle_ctor_succeeds[OF chunk new raw g1 g2]
    by (simp add: CustomAllocator_convert_def get_handle_def)
  have ga: "get_state ?a ?w = Some (length (pools w))"
    by (rule get_state_new_handle[where w = w]) simp_all
  have go: "get_state other ?w = Some st"
    by (rule get_state_old_handle[OF valid, where hs = "[Some (length (pools w))]"]) simp
  have ne: "st \<noteq> length (pools w)"
    using st by simp
  have old: "pools ?w ! st = pools w ! st" and new: "pools ?w ! length (pools w) = ?fresh"
    using st by (simp_all add: nth_append)
  have f1: "\<forall>n. pools (snd (allocate sys ?a n ?w)) ! st = pools w ! st"
    using allocate_frame[of ?a ?w st sys] ga ne old by simp
  have f2: "\<forall>p n. pools (snd (deallocate sys ?a p n ?w)) ! st = pools w ! st"
    using deallocate_frame[of ?a ?w st sys] ga ne old by simp
  have f3: "\<forall>n. pools (snd (allocate sys other n ?w)) ! length (pools w) = ?fresh"
    using allocate_frame[of other ?w "length (pools w)" sys] go ne new by simp
  have f4: "\<forall>p n. pools (snd (deallocate sys other p n ?w)) ! length (pools w) = ?fresh"
    using deallocate_frame[of other ?w "length (pools w)" sys] go ne new by simp
  from conv ga new go old ne f1 f2 f3 f4 show ?thesis
    unfolding Let_def by (intro conjI)
qed

subsection \<open>Single-element allocation from a fresh pool\<close>




lemma unat_of_nat_le: "unat (of_nat n :: size_t) \<le> n"
  by (metis le_unat_uoi linorder_le_cases)







lemma allocate_ones_numeral:
  "allocate_ones sys a (numeral n) w =
     (case allocate sys a 1 w of
        (r, w') \<Rightarrow>
          (case allocate_ones sys a (pred_numeral n) w' of (rs, w'') \<Rightarrow> (r # rs, w'')))"
  by (simp add: numeral_eq_Suc)

subsection \<open>The operations keep the indices in range\<close>

lemma add_block_ok:
  assumes "pool_ok s" and "add_block sys elems s h = (Inr u, s', h')"
  shows "pool_ok s'"
  using assms unat_of_nat_le[of "length (blocks s)"]
  by (auto simp: add_block_def push_back_def pool_ok_def Let_def
           split: if_splits prod.splits bool.splits)

lemma alloc_from_current_ok:
  assumes "pool_ok s" and "alloc_from_current n s = (r, s')"
  shows "pool_ok s'"
  using assms by (auto simp: alloc_from_current_def pool_ok_def Let_def split: if_splits)

lemma pop_free_ok: "pool_ok s \<Longrightarrow> pool_ok (snd (pop_free s))"
  by (simp add: pop_free_def pool_ok_def)

lemma push_free_ok:
  assumes "pool_ok s" and "push_free sys p s h = (r, s', h')"
  shows "pool_ok s'"
  using assms
  by (auto simp: push_free_def push_back_def pool_ok_def split: prod.splits bool.splits)

lemma PoolState_ctor_ok:
  assumes "PoolState_ctor sys sz chunk h = (Inr s, h')"
  shows "pool_ok s \<and> chunk_elems s = chunk \<and> chunk \<noteq> 0 \<and> element_size s = sz
       \<and> blocks s \<noteq> []"
  using assms
  by (auto simp: PoolState_ctor_def add_block_def push_back_def pool_ok_def Let_def
           split: if_splits prod.splits bool.splits)

lemma reserve_elements_ok:
  assumes "pool_ok s" and "reserve_elements sys total_elems s h = (Inr u, s', h')"
  shows "pool_ok s'"
proof (cases "total_elems = 0 \<or> total_elems \<le> available s")
  case True
  then have "s' = s"
    using assms(2) by (auto simp: reserve_elements_def split: if_splits)
  then show ?thesis using assms(1) by simp
next
  case False
  then have d: "total_elems - available s \<noteq> 0"
    by auto
  have "add_block sys (max (chunk_elems s) (total_elems - available s)) s h = (Inr (), s', h')"
    using assms(2) False d
    by (auto simp: reserve_elements_def reserve_loop_once split: prod.splits sum.splits)
  then show ?thesis
    using add_block_ok[OF assms(1)] by simp
qed

lemma allocate_in_ok:
  assumes ok: "pool_ok s" and al: "allocate_in sys a n s h = (Inr p, s', h')"
  shows "pool_ok s'"
proof -
  have ok1: "pool_ok (snd (pop_free s))"
    using ok by (rule pop_free_ok)
  show ?thesis
    using al ok ok1
    by (auto simp: allocate_in_def Let_def split: if_splits prod.splits sum.splits
             dest: add_block_ok alloc_from_current_ok)
qed

section \<open>The claims\<close>

subsection \<open>C1: what reserve appends\<close>

text \<open>
  C1 fails on the code. A fresh front-end of chunk 10 for 8-byte elements is asked eleven
  times for one element: the first block has been handed out in full and the second block
  is current with 9 elements of headroom. A request for 15 elements does not fit the
  current block, so the space that bump allocation can still use is short of 15 by 6. Yet
  \<open>reserve_elements(15)\<close> counts the whole first block as available, finds 19 and
  returns without appending a block; the \<open>allocate(15)\<close> that follows has to grow the
  pool by a third block all the same.
\<close>

theorem reserve_elements_counts_consumed_block:
  "CustomAllocator_ctor bump_sys ''double'' 8 10 True False (empty_world (4096, 1160))
     = (Inr \<lparr>value_type = ''double'', sizeof_T = 8, ChunkElems = 10, Expandable = True,
           PerElementFree = False, handle = Some 0\<rparr>,
        \<lparr>pools = [\<lparr>blocks = [4096], block_elems = [10], chunk_elems = 10, element_size = 8,
                   current_block_index = 0, current_offset = 0, free_list = []\<rparr>],
         handles = [Some 0], sysheap = (4176, 1080)\<rparr>)
   \<and> snd (allocate_ones bump_sys
        \<lparr>value_type = ''double'', sizeof_T = 8, ChunkElems = 10, Expandable = True,
         PerElementFree = False, handle = Some 0\<rparr> 11
        \<lparr>pools = [\<lparr>blocks = [4096], block_elems = [10], chunk_elems = 10, element_size = 8,
                   current_block_index = 0, current_offset = 0, free_list = []\<rparr>],
         handles = [Some 0], sysheap = (4176, 1080)\<rparr>)
     = \<lparr>pools = [\<lparr>blocks = [4096, 4176], block_elems = [10, 10], chunk_elems = 10, element_size = 8,
                current_block_index = 1, current_offset = 1, free_list = []\<rparr>],
      handles = [Some 0], sysheap = (4256, 1000)\<rparr>
   \<and> block_elems
       \<lparr>blocks = [4096, 4176], block_elems = [10, 10], chunk_elems = 10, element_size = 8,
        current_block_index = 1, current_offset = 1, free_list = []\<rparr>
       ! unat (1 :: size_t) - (1 :: size_t) = 9
   \<and> (9 :: size_t) < 15
   \<and> \<not> current_block_has
     \<lparr>blocks = [4096, 4176], block_elems = [10, 10], chunk_elems = 10, element_size = 8,
      current_block_index = 1, current_offset = 1, free_list = []\<rparr> 15
   \<and> CustomAllocator_reserve_elements bump_sys
     \<lparr>value_type = ''double'', sizeof_T = 8, ChunkElems = 10, Expandable = True,
      PerElementFree = False, handle = Some 0\<rparr> 15
     \<lparr>pools = [\<lparr>blocks = [4096, 4176], block_elems = [10, 10], chunk_elems = 10, element_size = 8,
                current_block_index = 1, current_offset = 1, free_list = []\<rparr>],
      handles = [Some 0], sysheap = (4256, 1000)\<rparr>
     = (Inr (),
        \<lparr>pools = [\<lparr>blocks = [4096, 4176], block_elems = [10, 10], chunk_elems = 10, element_size = 8,
                   current_block_index = 1, current_offset = 1, free_list = []\<rparr>],
         handles = [Some 0], sysheap = (4256, 1000)\<rparr>)
   \<and> allocate bump_sys
     \<lparr>value_type = ''double'', sizeof_T = 8, ChunkElems = 10, Expandable = True,
      PerElementFree = False, handle = Some 0\<rparr> 15
     \<lparr>pools = [\<lparr>blocks = [4096, 4176], block_elems = [10, 10], chunk_elems = 10, element_size = 8,
                current_block_index = 1, current_offset = 1, free_list = []\<rparr>],
      handles = [Some 0], sysheap = (4256, 1000)\<rparr>
     = (Inr 4256,
        \<lparr>pools = [\<lparr>blocks = [4096, 4176, 4256], block_elems = [10, 10, 15], chunk_elems = 10, element_size = 8,
                   current_block_index = 2, current_offset = 15, free_list = []\<rparr>],
         handles = [Some 0], sysheap = (4376, 880)\<rparr>)"
  by (simp add: allocate_ones_numeral CustomAllocator_ctor_def PoolHandle_ctor_def
      PoolState_ctor_def add_block_def push_back_def empty_world_def allocate_def
      allocate_in_def get_state_def PoolHandle_valid_def PoolHandle_get_state_def max_size_def
      current_block_has_def alloc_from_current_def bump_new_def bump_sys_def
      CustomAllocator_reserve_elements_def reserve_elements_def available_def)

subsection \<open>C2: the has-room check\<close>

text \<open>
  C2 fails on the code: \<open>current_offset + n\<close> wraps. With offset 1 in a block of
  capacity 10 and \<open>n = 2 ^ 64 - 1\<close> the sum is 0 and \<open>current_block_has\<close> answers
  true, although the block has 9 elements left.
\<close>

theorem current_block_has_wraps:
  "current_block_has
     \<lparr>blocks = [4096], block_elems = [10], chunk_elems = 10, element_size = 1,
      current_block_index = 0, current_offset = 1, free_list = []\<rparr> 18446744073709551615
   \<and> \<not> unat (18446744073709551615 :: size_t) \<le> unat (10 :: size_t) - unat (1 :: size_t)"
  by (simp add: current_block_has_def)

subsection \<open>C3: requests above max_size\<close>

text \<open>
  C3 fails on the code for \<open>reserve_elements\<close>, which has no check against
  \<open>max_size\<close>. With 8-byte elements \<open>max_size\<close> is \<open>2 ^ 61 - 1\<close>. A fresh pool of
  chunk 10 asked to reserve \<open>2 ^ 61 + 11\<close> elements does not fail: it asks the system
  allocator for \<open>(2 ^ 61 + 1) * 8 mod 2 ^ 64 = 8\<close> bytes and records a block of
  \<open>2 ^ 61 + 1\<close> elements.
\<close>

theorem reserve_elements_over_limit:
  "CustomAllocator_ctor bump_sys ''double'' 8 10 True False (empty_world (4096, 1080))
     = (Inr \<lparr>value_type = ''double'', sizeof_T = 8, ChunkElems = 10, Expandable = True,
           PerElementFree = False, handle = Some 0\<rparr>,
        \<lparr>pools = [\<lparr>blocks = [4096], block_elems = [10], chunk_elems = 10, element_size = 8,
                   current_block_index = 0, current_offset = 0, free_list = []\<rparr>],
         handles = [Some 0], sysheap = (4176, 1000)\<rparr>)
   \<and> max_size
        \<lparr>value_type = ''double'', sizeof_T = 8, ChunkElems = 10, Expandable = True,
         PerElementFree = False, handle = Some 0\<rparr>
     = 2305843009213693951
   \<and> CustomAllocator_reserve_elements bump_sys
     \<lparr>value_type = ''double'', sizeof_T = 8, ChunkElems = 10, Expandable = True,
      PerElementFree = False, handle = Some 0\<rparr>
     2305843009213693963
     \<lparr>pools = [\<lparr>blocks = [4096], block_elems = [10], chunk_elems = 10, element_size = 8,
                current_block_index = 0, current_offset = 0, free_list = []\<rparr>],
      handles = [Some 0], sysheap = (4176, 1000)\<rparr>
   = (Inr (),
      \<lparr>pools = [\<lparr>blocks = [4096, 4176], block_elems = [10, 2305843009213693953], chunk_elems = 10, element_size = 8,
                 current_block_index = 1, current_offset = 0, free_list = []\<rparr>],
       handles = [Some 0], sysheap = (4184, 992)\<rparr>)"
  by (simp add: CustomAllocator_reserve_elements_def reserve_elements_def available_def
      reserve_loop_once add_block_def push_back_def bump_new_def bump_sys_def get_state_def
      PoolHandle_valid_def PoolHandle_get_state_def max_size_def CustomAllocator_ctor_def
      PoolHandle_ctor_def PoolState_ctor_def empty_world_def)

subsection \<open>C4: a non-expandable pool and a request above the chunk\<close>

text \<open>
  C4, as amended. For a front-end that is not expandable and has a valid pool, a request
  for more elements than the pool's chunk fails and leaves the whole store as it was. The
  failure is \<open>std::bad_array_new_length\<close> when the request also exceeds \<open>max_size\<close>,
  which is checked first, and \<open>std::bad_alloc\<close> otherwise.
\<close>

theorem allocate_non_expandable_too_large:
  assumes "get_state a w = Some st" and "\<not> Expandable a" and "chunk_elems (pools w ! st) < n"
  shows "allocate sys a n w =
           (Inl (if max_size a < n then bad_array_new_length else bad_alloc), w)"
proof -
  have "n \<noteq> 0"
    using assms(3) by auto
  then have "allocate_in sys a n (pools w ! st) (sysheap w) =
      (Inl (if max_size a < n then bad_array_new_length else bad_alloc), pools w ! st, sysheap w)"
    using assms by (simp add: allocate_in_def)
  then show ?thesis
    using assms(1) by (simp add: allocate_def)
qed

text \<open>
  C4, an instance of the amended claim: 11 elements from a fixed pool of chunk 10.
\<close>

theorem allocate_non_expandable_too_large_witness:
  "chunk_elems \<lparr>blocks = [4096], block_elems = [10], chunk_elems = 10, element_size = 8,
                current_block_index = 0, current_offset = 0, free_list = []\<rparr> < 11
   \<and> allocate bump_sys
     \<lparr>value_type = ''double'', sizeof_T = 8, ChunkElems = 10, Expandable = False,
      PerElementFree = False, handle = Some 0\<rparr>
     11
     \<lparr>pools = [\<lparr>blocks = [4096], block_elems = [10], chunk_elems = 10, element_size = 8,
                current_block_index = 0, current_offset = 0, free_list = []\<rparr>],
      handles = [Some 0], sysheap = (4176, 1000)\<rparr>
   = (Inl bad_alloc,
      \<lparr>pools = [\<lparr>blocks = [4096], block_elems = [10], chunk_elems = 10, element_size = 8,
                 current_block_index = 0, current_offset = 0, free_list = []\<rparr>],
       handles = [Some 0], sysheap = (4176, 1000)\<rparr>)"
  using allocate_non_expandable_too_large
    [where sys = bump_sys and n = 11 and st = 0
       and a = "\<lparr>value_type = ''double'', sizeof_T = 8, ChunkElems = 10, Expandable = False,
                PerElementFree = False, handle = Some 0\<rparr>"
       and w = "\<lparr>pools = [\<lparr>blocks = [4096], block_elems = [10], chunk_elems = 10, element_size = 8,
                           current_block_index = 0, current_offset = 0, free_list = []\<rparr>],
                 handles = [Some 0], sysheap = (4176, 1000)\<rparr>"]
  by (simp add: get_state_def PoolHandle_valid_def PoolHandle_get_state_def max_size_def)

text \<open>
  C4 as stated fails: with 8-byte elements a request for \<open>2 ^ 61\<close> elements from a
  fixed pool of chunk 10 exceeds the chunk, and fails with \<open>std::bad_array_new_length\<close>,
  not with \<open>std::bad_alloc\<close>.
\<close>

theorem allocate_non_expandable_counterexample:
  "(10 :: size_t) < 2305843009213693952
   \<and> allocate bump_sys
     \<lparr>value_type = ''double'', sizeof_T = 8, ChunkElems = 10, Expandable = False,
      PerElementFree = False, handle = Some 0\<rparr>
     2305843009213693952
     \<lparr>pools = [\<lparr>blocks = [4096], block_elems = [10], chunk_elems = 10, element_size = 8,
                current_block_index = 0, current_offset = 0, free_list = []\<rparr>],
      handles = [Some 0], sysheap = (4176, 1000)\<rparr>
   = (Inl bad_array_new_length,
      \<lparr>pools = [\<lparr>blocks = [4096], block_elems = [10], chunk_elems = 10, element_size = 8,
                 current_block_index = 0, current_offset = 0, free_list = []\<rparr>],
       handles = [Some 0], sysheap = (4176, 1000)\<rparr>)"
  by (simp add: allocate_def allocate_in_def get_state_def PoolHandle_valid_def
      PoolHandle_get_state_def max_size_def)

subsection \<open>C5: release and reuse of a single slot\<close>

text \<open>
  C5, as amended. With per-element free enabled, a valid pool and a free list that finds
  the room for one more slot, \<open>deallocate(p, 1)\<close> of a non-null pointer returns and the
  \<open>allocate(1)\<close> that follows at once returns \<open>p\<close>; the objects of the store, so also
  the bump offset, the blocks and their capacities, are what they were before the two
  calls, and only the system allocator has been asked for the room in the free list.
  \<open>sizeof(T)\<close> is not zero, and the chunk of a pool is not zero.
\<close>

theorem deallocate_allocate_roundtrip:
  assumes "PerElementFree a" and "get_state a w = Some st" and "st < length (pools w)"
    and "p \<noteq> nullptr" and "sizeof_T a \<noteq> 0"
    and "Expandable a \<or> chunk_elems (pools w ! st) \<noteq> 0"
    and "fst (vector_grow sys (sysheap w))"
  shows "fst (deallocate sys a p 1 w) = Inr ()
       \<and> allocate sys a 1 (snd (deallocate sys a p 1 w))
           = (Inr p, w\<lparr>sysheap := snd (vector_grow sys (sysheap w))\<rparr>)"
proof -
  let ?s = "pools w ! st" and ?h = "snd (vector_grow sys (sysheap w))"
  let ?s1 = "?s\<lparr>free_list := free_list ?s @ [p]\<rparr>"
  let ?w1 = "w\<lparr>pools := (pools w)[st := ?s1], sysheap := ?h\<rparr>"
  have pf: "push_free sys p ?s (sysheap w) = (Inr (), ?s1, ?h)"
    using assms(7) by (simp add: push_free_def push_back_grows)
  have d: "deallocate sys a p 1 w = (Inr (), ?w1)"
    using assms(1,2,4) pf by (simp add: deallocate_def)
  have g: "get_state a ?w1 = Some st"
    using assms(2) get_state_handles[of ?w1 w a] by simp
  have nz: "\<not> (\<not> Expandable a \<and> chunk_elems ?s < 1)"
    using assms(6) by auto
  have "allocate_in sys a 1 ?s1 ?h = (Inr p, ?s, ?h)"
    using assms(1,4,5) max_size_ge_1[of a] nz
    by (simp add: allocate_in_def pop_free_last)
  then have "allocate sys a 1 ?w1 = (Inr p, w\<lparr>sysheap := ?h\<rparr>)"
    using assms(3) g by (simp add: allocate_def)
  with d show ?thesis by simp
qed

text \<open>
  C5, an instance of the amended claim: the slot at 4096 of a pool of 4-byte elements
  goes to the free list and comes back.
\<close>

theorem deallocate_allocate_roundtrip_witness:
  "deallocate bump_sys
     \<lparr>value_type = ''int'', sizeof_T = 4, ChunkElems = 10, Expandable = True,
      PerElementFree = True, handle = Some 0\<rparr>
     4096 1
     \<lparr>pools = [\<lparr>blocks = [4096], block_elems = [10], chunk_elems = 10, element_size = 4,
                current_block_index = 0, current_offset = 1, free_list = []\<rparr>],
      handles = [Some 0], sysheap = (4136, 1000)\<rparr>
   = (Inr (),
      \<lparr>pools = [\<lparr>blocks = [4096], block_elems = [10], chunk_elems = 10, element_size = 4,
                 current_block_index = 0, current_offset = 1, free_list = [4096]\<rparr>],
       handles = [Some 0], sysheap = (4136, 1000)\<rparr>)
   \<and> allocate bump_sys
     \<lparr>value_type = ''int'', sizeof_T = 4, ChunkElems = 10, Expandable = True,
      PerElementFree = True, handle = Some 0\<rparr> 1
     \<lparr>pools = [\<lparr>blocks = [4096], block_elems = [10], chunk_elems = 10, element_size = 4,
                current_block_index = 0, current_offset = 1, free_list = [4096]\<rparr>],
      handles = [Some 0], sysheap = (4136, 1000)\<rparr>
   = (Inr 4096,
      \<lparr>pools = [\<lparr>blocks = [4096], block_elems = [10], chunk_elems = 10, element_size = 4,
                 current_block_index = 0, current_offset = 1, free_list = []\<rparr>],
       handles = [Some 0], sysheap = (4136, 1000)\<rparr>)"
  using deallocate_allocate_roundtrip
    [where sys = bump_sys and p = 4096 and st = 0
       and a = "\<lparr>value_type = ''int'', sizeof_T = 4, ChunkElems = 10, Expandable = True,
                PerElementFree = True, handle = Some 0\<rparr>"
       and w = "\<lparr>pools = [\<lparr>blocks = [4096], block_elems = [10], chunk_elems = 10, element_size = 4,
                           current_block_index = 0, current_offset = 1, free_list = []\<rparr>],
                 handles = [Some 0], sysheap = (4136, 1000)\<rparr>"]
  by (simp add: get_state_def PoolHandle_valid_def PoolHandle_get_state_def bump_sys_def
      deallocate_def push_free_def push_back_def)

text \<open>
  C5 as stated fails, in two ways. A front-end returns the slot 4096 and its handle is
  reset: \<open>deallocate(4096, 1)\<close> then does nothing and \<open>allocate(1)\<close> throws
  \<open>std::bad_alloc\<close>. And on a system allocator that has no room for the free list,
  \<open>deallocate(4096, 1)\<close> does not return: \<open>push_back\<close> throws inside \<open>noexcept\<close>
  code and the program is terminated.
\<close>

theorem deallocate_allocate_counterexample:
  "allocate bump_sys
     \<lparr>value_type = ''int'', sizeof_T = 4, ChunkElems = 10, Expandable = True,
      PerElementFree = True, handle = Some 0\<rparr> 1
     \<lparr>pools = [\<lparr>blocks = [4096], block_elems = [10], chunk_elems = 10, element_size = 4,
                current_block_index = 0, current_offset = 0, free_list = []\<rparr>],
      handles = [Some 0], sysheap = (4136, 1000)\<rparr>
   = (Inr 4096,
      \<lparr>pools = [\<lparr>blocks = [4096], block_elems = [10], chunk_elems = 10, element_size = 4,
                 current_block_index = 0, current_offset = 1, free_list = []\<rparr>],
       handles = [Some 0], sysheap = (4136, 1000)\<rparr>)
   \<and> PoolHandle_reset 0
     \<lparr>pools = [\<lparr>blocks = [4096], block_elems = [10], chunk_elems = 10, element_size = 4,
                current_block_index = 0, current_offset = 1, free_list = []\<rparr>],
      handles = [Some 0], sysheap = (4136 :: addr, 1000 :: nat)\<rparr>
   = \<lparr>pools = [\<lparr>blocks = [4096], block_elems = [10], chunk_elems = 10, element_size = 4,
              current_block_index = 0, current_offset = 1, free_list = []\<rparr>],
    handles = [None], sysheap = (4136, 1000)\<rparr>
   \<and> deallocate bump_sys
     \<lparr>value_type = ''int'', sizeof_T = 4, ChunkElems = 10, Expandable = True,
      PerElementFree = True, handle = Some 0\<rparr>
     4096 1
     \<lparr>pools = [\<lparr>blocks = [4096], block_elems = [10], chunk_elems = 10, element_size = 4,
                current_block_index = 0, current_offset = 1, free_list = []\<rparr>],
      handles = [None], sysheap = (4136, 1000)\<rparr>
   = (Inr (),
      \<lparr>pools = [\<lparr>blocks = [4096], block_elems = [10], chunk_elems = 10, element_size = 4,
                 current_block_index = 0, current_offset = 1, free_list = []\<rparr>],
       handles = [None], sysheap = (4136, 1000)\<rparr>)
   \<and> allocate bump_sys
     \<lparr>value_type = ''int'', sizeof_T = 4, ChunkElems = 10, Expandable = True,
      PerElementFree = True, handle = Some 0\<rparr> 1
     \<lparr>pools = [\<lparr>blocks = [4096], block_elems = [10], chunk_elems = 10, element_size = 4,
                current_block_index = 0, current_offset = 1, free_list = []\<rparr>],
      handles = [None], sysheap = (4136, 1000)\<rparr>
   = (Inl bad_alloc,
      \<lparr>pools = [\<lparr>blocks = [4096], block_elems = [10], chunk_elems = 10, element_size = 4,
                 current_block_index = 0, current_offset = 1, free_list = []\<rparr>],
       handles = [None], sysheap = (4136, 1000)\<rparr>)
   \<and> deallocate counted_sys
     \<lparr>value_type = ''int'', sizeof_T = 4, ChunkElems = 10, Expandable = True,
      PerElementFree = True, handle = Some 0\<rparr>
     4096 1
     \<lparr>pools = [\<lparr>blocks = [4096], block_elems = [10], chunk_elems = 10, element_size = 4,
                current_block_index = 0, current_offset = 1, free_list = []\<rparr>],
      handles = [Some 0], sysheap = ((4136, 1000), 0)\<rparr>
   = (Inl terminate,
      \<lparr>pools = [\<lparr>blocks = [4096], block_elems = [10], chunk_elems = 10, element_size = 4,
                 current_block_index = 0, current_offset = 1, free_list = []\<rparr>],
       handles = [Some 0], sysheap = ((4136, 1000), 0)\<rparr>)"
  by (simp add: allocate_def allocate_in_def deallocate_def push_free_def push_back_def
      pop_free_def get_state_def PoolHandle_valid_def PoolHandle_get_state_def
      PoolHandle_reset_def max_size_def current_block_has_def alloc_from_current_def
      bump_sys_def counted_sys_def)

subsection \<open>C6: single elements from a fresh expandable pool\<close>



subsection \<open>C7: no reuse when per-element free is disabled\<close>

text \<open>
  C7 fails on the code, through the wrap-around of \<open>current_block_has\<close>. A fresh
  front-end for 1-byte elements, per-element free disabled: \<open>allocate(1)\<close> returns 4096
  and \<open>deallocate(4096, 1)\<close> changes nothing; \<open>allocate(2 ^ 64 - 1)\<close> is within
  \<open>max_size\<close>, passes the has-room check because \<open>1 + (2 ^ 64 - 1)\<close> wraps to 0,
  returns 4097 and leaves the bump offset at 0, which is the state of the fresh pool. The
  next \<open>allocate(1)\<close> is therefore the first call again and returns 4096 again.
\<close>

theorem allocate_returns_released_slot_again:
  "CustomAllocator_ctor bump_sys ''char'' 1 10 True False (empty_world (4096, 1000000))
     = (Inr \<lparr>value_type = ''char'', sizeof_T = 1, ChunkElems = 10, Expandable = True,
           PerElementFree = False, handle = Some 0\<rparr>,
        \<lparr>pools = [\<lparr>blocks = [4096], block_elems = [10], chunk_elems = 10, element_size = 1,
                   current_block_index = 0, current_offset = 0, free_list = []\<rparr>],
         handles = [Some 0], sysheap = (4106, 999990)\<rparr>)
  \<and> allocate bump_sys
     \<lparr>value_type = ''char'', sizeof_T = 1, ChunkElems = 10, Expandable = True,
      PerElementFree = False, handle = Some 0\<rparr> 1
     \<lparr>pools = [\<lparr>blocks = [4096], block_elems = [10], chunk_elems = 10, element_size = 1,
                current_block_index = 0, current_offset = 0, free_list = []\<rparr>],
      handles = [Some 0], sysheap = (4106, 999990)\<rparr>
   = (Inr 4096,
      \<lparr>pools = [\<lparr>blocks = [4096], block_elems = [10], chunk_elems = 10, element_size = 1,
                 current_block_index = 0, current_offset = 1, free_list = []\<rparr>],
       handles = [Some 0], sysheap = (4106, 999990)\<rparr>)
  \<and> deallocate bump_sys
     \<lparr>value_type = ''char'', sizeof_T = 1, ChunkElems = 10, Expandable = True,
      PerElementFree = False, handle = Some 0\<rparr>
     4096 1
     \<lparr>pools = [\<lparr>blocks = [4096], block_elems = [10], chunk_elems = 10, element_size = 1,
                current_block_index = 0, current_offset = 1, free_list = []\<rparr>],
      handles = [Some 0], sysheap = (4106, 999990)\<rparr>
   = (Inr (),
      \<lparr>pools = [\<lparr>blocks = [4096], block_elems = [10], chunk_elems = 10, element_size = 1,
                 current_block_index = 0, current_offset = 1, free_list = []\<rparr>],
       handles = [Some 0], sysheap = (4106, 999990)\<rparr>)
  \<and> allocate bump_sys
     \<lparr>value_type = ''char'', sizeof_T = 1, ChunkElems = 10, Expandable = True,
      PerElementFree = False, handle = Some 0\<rparr>
     18446744073709551615
     \<lparr>pools = [\<lparr>blocks = [4096], block_elems = [10], chunk_elems = 10, element_size = 1,
                current_block_index = 0, current_offset = 1, free_list = []\<rparr>],
      handles = [Some 0], sysheap = (4106, 999990)\<rparr>
   = (Inr 4097,
      \<lparr>pools = [\<lparr>blocks = [4096], block_elems = [10], chunk_elems = 10, element_size = 1,
                 current_block_index = 0, current_offset = 0, free_list = []\<rparr>],
       handles = [Some 0], sysheap = (4106, 999990)\<rparr>)"
  by (simp add: allocate_def allocate_in_def deallocate_def get_state_def PoolHandle_valid_def
      PoolHandle_get_state_def max_size_def current_block_has_def alloc_from_current_def
      CustomAllocator_ctor_def PoolHandle_ctor_def PoolState_ctor_def add_block_def
      push_back_def bump_new_def bump_sys_def empty_world_def)

subsection \<open>C8: growth that fails\<close>

text \<open>
  C8 fails on the code. \<open>add_block\<close> appends to \<open>blocks\<close> and then to
  \<open>block_elems\<close>, and each \<open>push_back\<close> can throw \<open>std::bad_alloc\<close>. A pool whose
  only block is full grows on a system allocator that serves the block and the room in
  \<open>blocks\<close> and has no room left for \<open>block_elems\<close>: the operation fails with
  \<open>std::bad_alloc\<close> and the pool is not what it was, \<open>blocks\<close> has two entries and
  \<open>block_elems\<close> one. The same through \<open>allocate(1)\<close>.
\<close>

theorem add_block_leaves_partial_block:
  "add_block counted_sys 10
     \<lparr>blocks = [4096], block_elems = [10], chunk_elems = 10, element_size = 8,
      current_block_index = 0, current_offset = 10, free_list = []\<rparr> ((4176, 1000), 1)
   = (Inl bad_alloc,
      \<lparr>blocks = [4096, 4176], block_elems = [10], chunk_elems = 10, element_size = 8,
       current_block_index = 0, current_offset = 10, free_list = []\<rparr>, ((4256, 920), 0))
   \<and> allocate counted_sys
     \<lparr>value_type = ''double'', sizeof_T = 8, ChunkElems = 10, Expandable = True,
      PerElementFree = False, handle = Some 0\<rparr> 1
     \<lparr>pools = [\<lparr>blocks = [4096], block_elems = [10], chunk_elems = 10, element_size = 8,
                current_block_index = 0, current_offset = 10, free_list = []\<rparr>],
      handles = [Some 0], sysheap = ((4176, 1000), 1)\<rparr>
   = (Inl bad_alloc,
      \<lparr>pools = [\<lparr>blocks = [4096, 4176], block_elems = [10], chunk_elems = 10, element_size = 8,
                 current_block_index = 0, current_offset = 10, free_list = []\<rparr>],
       handles = [Some 0], sysheap = ((4256, 920), 0)\<rparr>)"
  by (simp add: add_block_def push_back_def counted_sys_def bump_new_def allocate_def
      allocate_in_def get_state_def PoolHandle_valid_def PoolHandle_get_state_def max_size_def
      current_block_has_def)

subsection \<open>C9: construction from a front-end of another element type\<close>

text \<open>
  C9 fails on the code. A front-end for \<open>double\<close> is constructed from one for
  \<open>int\<close> whose pool is valid: its pool is a new object of the store with one block of
  \<open>ChunkElems\<close> elements, and the pool of the source is untouched. But the two
  front-ends do not compare unequal: \<open>operator==\<close> between them compares a
  \<open>PoolState<double>*\<close> with a \<open>PoolState<int>*\<close> and does not compile, in either
  order.
\<close>

theorem converted_allocator_has_no_comparison:
  "CustomAllocator_convert bump_sys ''double'' 8
     \<lparr>value_type = ''int'', sizeof_T = 4, ChunkElems = 10, Expandable = True,
      PerElementFree = False, handle = Some 0\<rparr>
     \<lparr>pools = [\<lparr>blocks = [4096], block_elems = [10], chunk_elems = 10, element_size = 4,
                current_block_index = 0, current_offset = 3, free_list = []\<rparr>],
      handles = [Some 0], sysheap = (4136, 1000)\<rparr>
   = (Inr \<lparr>value_type = ''double'', sizeof_T = 8, ChunkElems = 10, Expandable = True,
         PerElementFree = False, handle = Some 1\<rparr>,
      \<lparr>pools = [\<lparr>blocks = [4096], block_elems = [10], chunk_elems = 10, element_size = 4,
                 current_block_index = 0, current_offset = 3, free_list = []\<rparr>,
                \<lparr>blocks = [4136], block_elems = [10], chunk_elems = 10, element_size = 8,
                 current_block_index = 0, current_offset = 0, free_list = []\<rparr>],
       handles = [Some 0, Some 1], sysheap = (4216, 920)\<rparr>)
   \<and> allocator_eq
       \<lparr>value_type = ''double'', sizeof_T = 8, ChunkElems = 10, Expandable = True,
        PerElementFree = False, handle = Some 1\<rparr>
       \<lparr>value_type = ''int'', sizeof_T = 4, ChunkElems = 10, Expandable = True,
        PerElementFree = False, handle = Some 0\<rparr>
       \<lparr>pools = [\<lparr>blocks = [4096], block_elems = [10], chunk_elems = 10, element_size = 4,
                  current_block_index = 0, current_offset = 3, free_list = []\<rparr>,
                 \<lparr>blocks = [4136], block_elems = [10], chunk_elems = 10, element_size = 8,
                  current_block_index = 0, current_offset = 0, free_list = []\<rparr>],
        handles = [Some 0, Some 1], sysheap = (4216 :: addr, 920 :: nat)\<rparr>
     = None
   \<and> allocator_eq
       \<lparr>value_type = ''int'', sizeof_T = 4, ChunkElems = 10, Expandable = True,
        PerElementFree = False, handle = Some 0\<rparr>
       \<lparr>value_type = ''double'', sizeof_T = 8, ChunkElems = 10, Expandable = True,
        PerElementFree = False, handle = Some 1\<rparr>
       \<lparr>pools = [\<lparr>blocks = [4096], block_elems = [10], chunk_elems = 10, element_size = 4,
                  current_block_index = 0, current_offset = 3, free_list = []\<rparr>,
                 \<lparr>blocks = [4136], block_elems = [10], chunk_elems = 10, element_size = 8,
                  current_block_index = 0, current_offset = 0, free_list = []\<rparr>],
        handles = [Some 0, Some 1], sysheap = (4216 :: addr, 920 :: nat)\<rparr>
     = None"
  by (simp add: CustomAllocator_convert_def get_handle_def PoolHandle_ctor_def
      PoolState_ctor_def add_block_def push_back_def bump_sys_def bump_new_def
      allocator_eq_def)

subsection \<open>C10: a front-end without a pool\<close>

text \<open>
  C10. When the front-end has no handle, or its handle has no state, \<open>allocate(n)\<close>
  fails with \<open>std::bad_alloc\<close> for every \<open>n\<close>, zero included, and the store is what it
  was; \<open>deallocate\<close> and \<open>reserve_elements\<close> return normally and change nothing.
\<close>

theorem invalid_allocator_ops:
  assumes "handle a = None \<or> (\<exists>hid. handle a = Some hid \<and> \<not> PoolHandle_valid hid w)"
  shows "allocate sys a n w = (Inl bad_alloc, w)
       \<and> deallocate sys a p m w = (Inr (), w)
       \<and> CustomAllocator_reserve_elements sys a count w = (Inr (), w)"
proof -
  from assms have "get_state a w = None"
    by (auto simp: get_state_def)
  then show ?thesis
    by (simp add: allocate_def deallocate_def CustomAllocator_reserve_elements_def)
qed

text \<open>
  C10, an instance: the handle of a front-end is reset, and the front-end is then asked
  for zero elements, to release a slot and to reserve five elements.
\<close>

theorem invalid_allocator_ops_witness:
  "PoolHandle_reset 0
     \<lparr>pools = [\<lparr>blocks = [4096], block_elems = [10], chunk_elems = 10, element_size = 4,
                current_block_index = 0, current_offset = 1, free_list = []\<rparr>],
      handles = [Some 0], sysheap = (4136 :: addr, 1000 :: nat)\<rparr>
   = \<lparr>pools = [\<lparr>blocks = [4096], block_elems = [10], chunk_elems = 10, element_size = 4,
              current_block_index = 0, current_offset = 1, free_list = []\<rparr>],
    handles = [None], sysheap = (4136, 1000)\<rparr>
   \<and> allocate bump_sys
     \<lparr>value_type = ''int'', sizeof_T = 4, ChunkElems = 10, Expandable = True,
      PerElementFree = True, handle = Some 0\<rparr> 0
     \<lparr>pools = [\<lparr>blocks = [4096], block_elems = [10], chunk_elems = 10, element_size = 4,
                current_block_index = 0, current_offset = 1, free_list = []\<rparr>],
      handles = [None], sysheap = (4136, 1000)\<rparr>
   = (Inl bad_alloc,
      \<lparr>pools = [\<lparr>blocks = [4096], block_elems = [10], chunk_elems = 10, element_size = 4,
                 current_block_index = 0, current_offset = 1, free_list = []\<rparr>],
       handles = [None], sysheap = (4136, 1000)\<rparr>)
   \<and> deallocate bump_sys
     \<lparr>value_type = ''int'', sizeof_T = 4, ChunkElems = 10, Expandable = True,
      PerElementFree = True, handle = Some 0\<rparr>
     4096 1
     \<lparr>pools = [\<lparr>blocks = [4096], block_elems = [10], chunk_elems = 10, element_size = 4,
                current_block_index = 0, current_offset = 1, free_list = []\<rparr>],
      handles = [None], sysheap = (4136, 1000)\<rparr>
   = (Inr (),
      \<lparr>pools = [\<lparr>blocks = [4096], block_elems = [10], chunk_elems = 10, element_size = 4,
                 current_block_index = 0, current_offset = 1, free_list = []\<rparr>],
       handles = [None], sysheap = (4136, 1000)\<rparr>)
   \<and> CustomAllocator_reserve_elements bump_sys
     \<lparr>value_type = ''int'', sizeof_T = 4, ChunkElems = 10, Expandable = True,
      PerElementFree = True, handle = Some 0\<rparr> 5
     \<lparr>pools = [\<lparr>blocks = [4096], block_elems = [10], chunk_elems = 10, element_size = 4,
                current_block_index = 0, current_offset = 1, free_list = []\<rparr>],
      handles = [None], sysheap = (4136, 1000)\<rparr>
   = (Inr (),
      \<lparr>pools = [\<lparr>blocks = [4096], block_elems = [10], chunk_elems = 10, element_size = 4,
                 current_block_index = 0, current_offset = 1, free_list = []\<rparr>],
       handles = [None], sysheap = (4136, 1000)\<rparr>)"
  using invalid_allocator_ops
    [where sys = bump_sys and n = 0 and p = 4096 and m = 1 and count = 5
       and a = "\<lparr>value_type = ''int'', sizeof_T = 4, ChunkElems = 10, Expandable = True,
                PerElementFree = True, handle = Some 0\<rparr>"
       and w = "\<lparr>pools = [\<lparr>blocks = [4096], block_elems = [10], chunk_elems = 10, element_size = 4,
                           current_block_index = 0, current_offset = 1, free_list = []\<rparr>],
                 handles = [None], sysheap = (4136, 1000)\<rparr>"]
  by (simp add: PoolHandle_valid_def PoolHandle_get_state_def PoolHandle_reset_def)

end
